theory Spec2Isabelle
  imports Main
begin

section \<open>The release module of eubnara/github\_enterprise\<close>

text \<open>
  A shallow embedding of \<^verbatim>\<open>run_module\<close> in \<^verbatim>\<open>plugins/modules/release.py\<close>.
  The module asks a GitHub Enterprise server for one release, keeps the assets whose
  name is wanted, and streams each of them to a file.

  The world outside the module is explicit:
  \<^item> the network is a function from the request to what \<^verbatim>\<open>requests.get\<close> does with it
    (raise, or return a response); within one run no request is sent twice, so a function
    of the request loses nothing;
  \<^item> the file system is a map from paths to contents, with a predicate telling which
    paths \<^verbatim>\<open>open(path, "wb")\<close> can open;
  \<^item> every request sent is appended to a log, so that "no download was performed" is a
    statement about the log.
  \<^verbatim>\<open>module.exit_json\<close> and \<^verbatim>\<open>module.fail_json\<close> end the process; an exception nobody
  catches ends it too. These are the three kinds of outcome.
\<close>

subsection \<open>Data\<close>

text \<open>The exceptions the code can meet. Only \<open>ConnectionError\<close> is ever caught.\<close>

datatype exn =
    ConnectionError
  | RequestException
  | JSONDecodeError
  | KeyError
  | OSError
  | StreamError
  | UnboundLocalError

text \<open>\<^verbatim>\<open>result = dict(changed=False, msg="")\<close>\<close>

record result =
  changed :: bool
  msg :: string

datatype outcome =
    Exit result
  | Fail result
  | Uncaught exn

text \<open>
  \<^verbatim>\<open>module.params\<close> and \<^verbatim>\<open>module.check_mode\<close>. A parameter that is not required is
  \<^verbatim>\<open>None\<close> when absent.
\<close>

record module =
  check_mode :: bool
  url :: string
  owner :: string
  repo :: string
  token :: string
  tag :: "string option"
  output_path :: "string option"
  asset_names :: "string list option"

text \<open>
  One element of the \<^verbatim>\<open>"assets"\<close> array of the release document. A key of the JSON
  object may be missing; reading it then raises \<^verbatim>\<open>KeyError\<close>. Identifiers are integers
  and names are strings, as the API documents them.
\<close>

record asset_json =
  json_id :: "int option"
  json_name :: "string option"

text \<open>
  What \<^verbatim>\<open>r.json()\<close> gives: it raises when the body is no JSON, otherwise the document,
  of which only the key \<^verbatim>\<open>"assets"\<close> is read (\<open>None\<close> when the key is missing).
\<close>

datatype json_body =
    NotJson
  | Json "asset_json list option"

record request =
  req_url :: string
  req_headers :: "(string \<times> string) list"
  req_stream :: bool

text \<open>
  A response: its status, its body read as JSON, and its body read as a stream of chunks
  (\<^verbatim>\<open>for chunk in r\<close>), which may break after the last chunk received.
\<close>

record response =
  status_code :: int
  body :: json_body
  chunks :: "string list"
  stream_broken :: bool

datatype reply =
    Raises exn
  | Returns response

record env =
  net :: "request \<Rightarrow> reply"
  openable :: "string \<Rightarrow> bool"
  cwd :: string

record world =
  files :: "string \<rightharpoonup> string"
  requests_sent :: "request list"

subsection \<open>Library functions the module calls\<close>

text \<open>\<^verbatim>\<open>str\<close> of an integer, as an f-string formats \<^verbatim>\<open>{asset_id}\<close>.\<close>

fun str_nat :: "nat \<Rightarrow> string" where
  "str_nat n =
     (if n < 10 then [''0123456789'' ! n]
      else str_nat (n div 10) @ [''0123456789'' ! (n mod 10)])"

declare str_nat.simps [simp del]

definition str_int :: "int \<Rightarrow> string" where
  "str_int i = (if i < 0 then CHR ''-'' # str_nat (nat (- i)) else str_nat (nat i))"

text \<open>\<^verbatim>\<open>os.path.join(a, b)\<close> of \<^verbatim>\<open>posixpath\<close>, for two arguments.\<close>

definition path_join :: "string \<Rightarrow> string \<Rightarrow> string" where
  "path_join a b =
     (if take 1 b = ''/'' then b
      else if a = [] \<or> last a = CHR ''/'' then a @ b
      else a @ ''/'' @ b)"

text \<open>
  \<^verbatim>\<open>d.update({k: v})\<close> on a dictionary, which keeps insertion order: a key already there
  keeps its place and takes the new value, a new key goes to the end.
\<close>

fun dict_update :: "('k \<times> 'v) list \<Rightarrow> 'k \<Rightarrow> 'v \<Rightarrow> ('k \<times> 'v) list" where
  "dict_update [] k v = [(k, v)]"
| "dict_update ((k', v') # d) k v =
     (if k' = k then (k, v) # d else (k', v') # dict_update d k v)"

subsection \<open>Selecting the assets\<close>

text \<open>
  \<^verbatim>\<open>
  assets_to_download = {}
  for asset in assets:
      name = asset["name"]
      if asset_names is not None and name not in asset_names:
          continue
      assets_to_download.update({asset["id"]: name})
  \<close>
\<close>

fun select_assets ::
  "string list option \<Rightarrow> asset_json list \<Rightarrow> (int \<times> string) list \<Rightarrow> exn + (int \<times> string) list"
where
  "select_assets names [] assets_to_download = Inr assets_to_download"
| "select_assets names (asset # assets) assets_to_download =
     (case json_name asset of
        None \<Rightarrow> Inl KeyError
      | Some name \<Rightarrow>
          if names \<noteq> None \<and> name \<notin> set (the names) then
            select_assets names assets assets_to_download
          else
            (case json_id asset of
               None \<Rightarrow> Inl KeyError
             | Some i \<Rightarrow> select_assets names assets (dict_update assets_to_download i name)))"

text \<open>An asset of the release, as the JSON object that carries it.\<close>

definition to_json :: "int \<times> string \<Rightarrow> asset_json" where
  "to_json a = \<lparr>json_id = Some (fst a), json_name = Some (snd a)\<rparr>"

definition wanted :: "string list option \<Rightarrow> int \<times> string \<Rightarrow> bool" where
  "wanted names a = (case names of None \<Rightarrow> True | Some ns \<Rightarrow> snd a \<in> set ns)"

subsection \<open>The requests\<close>

text \<open>
  \<^verbatim>\<open>
  github_endpoint_url = f"{module.params['url']}/api/v3/repos/{owner}/{repo}"
  url = (f"{github_endpoint_url}/releases/latest" if tag is None
         else f"{github_endpoint_url}/releases/tags/{tag}")
  \<close>
\<close>

definition github_endpoint_url :: "module \<Rightarrow> string" where
  "github_endpoint_url m = url m @ ''/api/v3/repos/'' @ owner m @ ''/'' @ repo m"

definition release_url :: "module \<Rightarrow> string" where
  "release_url m =
     (case tag m of
        None \<Rightarrow> github_endpoint_url m @ ''/releases/latest''
      | Some t \<Rightarrow> github_endpoint_url m @ ''/releases/tags/'' @ t)"

definition release_request :: "module \<Rightarrow> request" where
  "release_request m =
     \<lparr>req_url = release_url m,
      req_headers =
        [(''Accept'', ''application/vnd.github+json''),
         (''Authorization'', ''token '' @ token m)],
      req_stream = False\<rparr>"

text \<open>\<^verbatim>\<open>url = f"{github_endpoint_url}/releases/assets/{asset_id}"\<close>\<close>

definition asset_url :: "module \<Rightarrow> int \<Rightarrow> string" where
  "asset_url m asset_id = github_endpoint_url m @ ''/releases/assets/'' @ str_int asset_id"

definition asset_request :: "module \<Rightarrow> int \<Rightarrow> request" where
  "asset_request m asset_id =
     \<lparr>req_url = asset_url m asset_id,
      req_headers =
        [(''Accept'', ''application/octet-stream''),
         (''Authorization'', ''token '' @ token m)],
      req_stream = True\<rparr>"

subsection \<open>Downloading\<close>

text \<open>
  \<^verbatim>\<open>
  with open(path, "wb") as f:
      for chunk in r:
          f.write(chunk)
  \<close>
  Opening for writing empties the file; every chunk is appended to it.
\<close>

fun write_chunks :: "string \<Rightarrow> string list \<Rightarrow> (string \<rightharpoonup> string) \<Rightarrow> (string \<rightharpoonup> string)" where
  "write_chunks path [] fs = fs"
| "write_chunks path (chunk # rest) fs =
     write_chunks path rest
       (fs(path \<mapsto> (case fs path of None \<Rightarrow> chunk | Some old \<Rightarrow> old @ chunk)))"

text \<open>\<^verbatim>\<open>parent_dir = os.getcwd() if output_path is None else output_path\<close>\<close>

definition parent_dir_of :: "env \<Rightarrow> module \<Rightarrow> string" where
  "parent_dir_of e m = (case output_path m of None \<Rightarrow> cwd e | Some d \<Rightarrow> d)"

text \<open>
  The body of the download loop, for one item of \<^verbatim>\<open>assets_to_download\<close>. It either ends
  the run (\<open>Inl\<close>) or goes on with \<^verbatim>\<open>parent_dir\<close> bound (\<open>Inr\<close>).
\<close>

definition download_asset ::
  "env \<Rightarrow> module \<Rightarrow> result \<Rightarrow> int \<times> string \<Rightarrow> world \<Rightarrow> (outcome + string) \<times> world"
where
  "download_asset e m res item w =
     (let asset_id = fst item;
          asset_name = snd item;
          rq = asset_request m asset_id;
          w1 = w\<lparr>requests_sent := requests_sent w @ [rq]\<rparr>
      in case net e rq of
           Raises x \<Rightarrow> (Inl (Uncaught x), w1)
         | Returns r \<Rightarrow>
             if status_code r \<noteq> 200 then
               (Inl (Fail (res\<lparr>msg := ''Failed to download '' @ asset_name\<rparr>)), w1)
             else
               let parent_dir = parent_dir_of e m;
                   path = path_join parent_dir asset_name
               in if openable e path then
                    let w2 = w1\<lparr>files := write_chunks path (chunks r) ((files w1)(path \<mapsto> []))\<rparr>
                    in if stream_broken r then (Inl (Uncaught StreamError), w2)
                       else (Inr parent_dir, w2)
                  else (Inl (Uncaught OSError), w1))"

text \<open>
  The loop over \<^verbatim>\<open>assets_to_download.items()\<close>. The variable \<^verbatim>\<open>parent_dir\<close> is bound by the
  first round that reaches its assignment.
\<close>

fun download_assets ::
  "env \<Rightarrow> module \<Rightarrow> result \<Rightarrow> (int \<times> string) list \<Rightarrow> string option \<Rightarrow> world
   \<Rightarrow> (outcome + string option) \<times> world"
where
  "download_assets e m res [] parent_dir w = (Inr parent_dir, w)"
| "download_assets e m res (item # rest) parent_dir w =
     (case download_asset e m res item w of
        (Inl out, w') \<Rightarrow> (Inl out, w')
      | (Inr d, w') \<Rightarrow> download_assets e m res rest (Some d) w')"

subsection \<open>The module\<close>

text \<open>Lines 137 to 170: from \<^verbatim>\<open>r.json()\<close> to the end.\<close>

definition get_assets :: "env \<Rightarrow> module \<Rightarrow> result \<Rightarrow> response \<Rightarrow> world \<Rightarrow> outcome \<times> world" where
  "get_assets e m res r w =
     (case body r of
        NotJson \<Rightarrow> (Uncaught JSONDecodeError, w)
      | Json None \<Rightarrow> (Uncaught KeyError, w)
      | Json (Some assets) \<Rightarrow>
          (case select_assets (asset_names m) assets [] of
             Inl x \<Rightarrow> (Uncaught x, w)
           | Inr assets_to_download \<Rightarrow>
               if length assets_to_download = 0 then
                 (Fail (res\<lparr>msg := ''There is no asset to download''\<rparr>), w)
               else
                 (case download_assets e m res assets_to_download None w of
                    (Inl out, w') \<Rightarrow> (out, w')
                  | (Inr None, w') \<Rightarrow> (Uncaught UnboundLocalError, w')
                  | (Inr (Some parent_dir), w') \<Rightarrow>
                      (Exit (res\<lparr>msg := ''Completed to download assets on '' @ parent_dir\<rparr>),
                       w'))))"

text \<open>Lines 98 to 135, and then the rest.\<close>

definition run_module :: "env \<Rightarrow> module \<Rightarrow> world \<Rightarrow> outcome \<times> world" where
  "run_module e m w =
     (let res = \<lparr>changed = False, msg = []\<rparr>
      in if check_mode m then (Exit res, w)
         else
           let rq = release_request m;
               w1 = w\<lparr>requests_sent := requests_sent w @ [rq]\<rparr>
           in case net e rq of
                Raises x \<Rightarrow>
                  if x = ConnectionError then
                    (Fail (res\<lparr>msg := ''Failed to connect '' @ release_url m\<rparr>), w1)
                  else (Uncaught x, w1)
              | Returns r \<Rightarrow>
                  if status_code r = 401 then (Fail (res\<lparr>msg := ''401 Unauthorized''\<rparr>), w1)
                  else if status_code r = 404 then (Fail (res\<lparr>msg := ''404 Not Found''\<rparr>), w1)
                  else get_assets e m res r w1)"

subsection \<open>Notions the properties are stated with\<close>

text \<open>
  An item downloads successfully: the server answers 200, the file can be opened and the
  stream is read to its end.
\<close>

definition download_ok :: "env \<Rightarrow> module \<Rightarrow> int \<times> string \<Rightarrow> bool" where
  "download_ok e m item =
     (case net e (asset_request m (fst item)) of
        Raises x \<Rightarrow> False
      | Returns r \<Rightarrow>
          status_code r = 200 \<and> openable e (path_join (parent_dir_of e m) (snd item))
          \<and> \<not> stream_broken r)"

text \<open>
  The file system after the items have been saved one after the other: the file of an
  item holds the chunks of its response, in the order received.
\<close>

fun saved :: "env \<Rightarrow> module \<Rightarrow> (int \<times> string) list \<Rightarrow> (string \<rightharpoonup> string) \<Rightarrow> (string \<rightharpoonup> string)" where
  "saved e m [] fs = fs"
| "saved e m (item # rest) fs =
     saved e m rest
       (case net e (asset_request m (fst item)) of
          Raises x \<Rightarrow> fs
        | Returns r \<Rightarrow> fs(path_join (parent_dir_of e m) (snd item) \<mapsto> concat (chunks r)))"

text \<open>The value of \<^verbatim>\<open>changed\<close> an outcome reports, if it reports one.\<close>

fun outcome_changed :: "outcome \<Rightarrow> bool" where
  "outcome_changed (Exit res) = changed res"
| "outcome_changed (Fail res) = changed res"
| "outcome_changed (Uncaught x) = False"

text \<open>
  The number a string of decimal digits denotes, to say what \<open>str_int\<close> prints.
\<close>

definition digit_value :: "char \<Rightarrow> nat" where
  "digit_value c = length (takeWhile (\<lambda>d. d \<noteq> c) ''0123456789'')"

definition decimal :: "string \<Rightarrow> nat" where
  "decimal s = foldl (\<lambda>a c. 10 * a + digit_value c) 0 s"

subsection \<open>The requests a run can send, and a sample run\<close>

text \<open>
  The items the module selects: those of the dictionary \<^verbatim>\<open>assets_to_download\<close> when the
  request for the release is answered, with a status that is neither 401 nor 404, by a
  document that can be read; no item otherwise.
\<close>

definition selection :: "env \<Rightarrow> module \<Rightarrow> (int \<times> string) list" where
  "selection e m =
     (case net e (release_request m) of
        Raises x \<Rightarrow> []
      | Returns r \<Rightarrow>
          if status_code r = 401 \<or> status_code r = 404 then []
          else
            (case body r of
               NotJson \<Rightarrow> []
             | Json None \<Rightarrow> []
             | Json (Some assets) \<Rightarrow>
                 (case select_assets (asset_names m) assets [] of
                    Inl x \<Rightarrow> []
                  | Inr assets_to_download \<Rightarrow> assets_to_download)))"

text \<open>
  The scenario of the module's documentation: the latest release of
  \<^verbatim>\<open>eub/something-magnificent\<close> carries \<^verbatim>\<open>a.tar.gz\<close> (id 1) and \<^verbatim>\<open>b.zip\<close> (id 2). The
  replies of the server to the three requests are parameters of the environment.
\<close>

definition sample_module :: module where
  "sample_module =
     \<lparr>check_mode = False,
      url = ''https://github.example.com'',
      owner = ''eub'',
      repo = ''something-magnificent'',
      token = ''token-hard-to-guess'',
      tag = None,
      output_path = Some ''output'',
      asset_names = None\<rparr>"

definition sample_release :: "int \<Rightarrow> reply" where
  "sample_release status =
     Returns \<lparr>status_code = status,
              body = Json (Some [to_json (1, ''a.tar.gz''), to_json (2, ''b.zip'')]),
              chunks = [],
              stream_broken = False\<rparr>"

definition sample_asset :: "int \<Rightarrow> reply" where
  "sample_asset status =
     Returns \<lparr>status_code = status, body = NotJson, chunks = [''PK'', ''34''],
              stream_broken = False\<rparr>"

definition sample_env :: "reply \<Rightarrow> reply \<Rightarrow> reply \<Rightarrow> env" where
  "sample_env release first second =
     \<lparr>net = (\<lambda>rq.
         if req_url rq =
              ''https://github.example.com/api/v3/repos/eub/something-magnificent/releases/latest''
         then release
         else if req_url rq =
              ''https://github.example.com/api/v3/repos/eub/something-magnificent/releases/assets/1''
         then first
         else if req_url rq =
              ''https://github.example.com/api/v3/repos/eub/something-magnificent/releases/assets/2''
         then second
         else Raises ConnectionError),
      openable = (\<lambda>path. True),
      cwd = ''/home/eub''\<rparr>"

definition sample_world :: world where
  "sample_world = \<lparr>files = Map.empty, requests_sent = []\<rparr>"

text \<open>
  The same repository asked for the release tagged \<^verbatim>\<open>v1.0\<close>, whose assets have the ids
  1024 and 7.
\<close>

definition tagged_env :: env where
  "tagged_env =
     \<lparr>net = (\<lambda>rq.
         if req_url rq =
              ''https://github.example.com/api/v3/repos/eub/something-magnificent/releases/tags/v1.0''
         then Returns \<lparr>status_code = 200,
                       body = Json (Some [to_json (1024, ''a.tar.gz''), to_json (7, ''b.zip'')]),
                       chunks = [],
                       stream_broken = False\<rparr>
         else if req_url rq =
              ''https://github.example.com/api/v3/repos/eub/something-magnificent/releases/assets/1024''
         then sample_asset 200
         else if req_url rq =
              ''https://github.example.com/api/v3/repos/eub/something-magnificent/releases/assets/7''
         then sample_asset 200
         else Raises ConnectionError),
      openable = (\<lambda>path. True),
      cwd = ''/home/eub''\<rparr>"

section \<open>Properties\<close>

subsection \<open>The dictionary of selected assets\<close>

lemma dict_update_fresh:
  "k \<notin> fst ` set d \<Longrightarrow> dict_update d k v = d @ [(k, v)]"
  by (induction d) auto

lemma select_assets_distinct:
  "distinct (map fst (acc @ xs)) \<Longrightarrow>
   select_assets names (map to_json xs) acc = Inr (acc @ filter (wanted names) xs)"
proof (induction xs arbitrary: acc)
  case Nil
  then show ?case by simp
next
  case (Cons a xs)
  obtain i n where a: "a = (i, n)" by (cases a)
  show ?case
  proof (cases "wanted names a")
    case True
    from Cons.prems a have fresh: "i \<notin> fst ` set acc" by auto
    from Cons.prems a have "distinct (map fst ((acc @ [(i, n)]) @ xs))" by auto
    from Cons.IH [OF this] True a fresh show ?thesis
      by (auto simp: to_json_def wanted_def dict_update_fresh split: option.splits)
  next
    case False
    from Cons.prems have "distinct (map fst (acc @ xs))" by auto
    from Cons.IH [OF this] False a show ?thesis
      by (auto simp: to_json_def wanted_def split: option.splits)
  qed
qed

subsection \<open>Evaluating the sample run\<close>

lemmas sample_defs =
  sample_module_def sample_release_def sample_asset_def sample_env_def sample_world_def
  release_request_def asset_request_def release_url_def asset_url_def github_endpoint_url_def
  str_int_def str_nat.simps to_json_def

lemma sample_selection:
  "select_assets (asset_names sample_module) [to_json (1, ''a.tar.gz''), to_json (2, ''b.zip'')] []
   = Inr ([(1, ''a.tar.gz'')] @ (2, ''b.zip'') # [])"
  by (simp add: sample_defs)

lemma sample_first_ok:
  "list_all (download_ok (sample_env (sample_release 200) (sample_asset 200) second) sample_module)
     [(1, ''a.tar.gz'')]"
  by (simp add: sample_defs download_ok_def)

subsection \<open>Selection of the assets\<close>

text \<open>
  C1 (as amended). For every list of assets in which no two assets share an id: without a
  filter the selection is exactly the list, in its order; with a filter it is exactly the
  assets whose name is a member of the filter, in their order, and it is never an error,
  whatever names the filter holds.
\<close>

theorem select_assets_distinct_ids:
  assumes "distinct (map fst assets)"
  shows "select_assets None (map to_json assets) [] = Inr assets
       \<and> select_assets (Some names) (map to_json assets) [] =
           Inr (filter (\<lambda>asset. snd asset \<in> set names) assets)"
proof -
  from assms have d: "distinct (map fst ([] @ assets))" by simp
  have "filter (wanted None) assets = assets" by (simp add: wanted_def)
  moreover have "filter (wanted (Some names)) assets = filter (\<lambda>asset. snd asset \<in> set names) assets"
    by (rule filter_cong) (simp_all add: wanted_def)
  ultimately show ?thesis
    using select_assets_distinct [OF d, of None] select_assets_distinct [OF d, of "Some names"]
    by simp
qed

theorem select_assets_distinct_ids_witness:
  "distinct (map fst [(1::int, ''a.tar.gz''), (2, ''b.zip'')])
   \<and> select_assets None (map to_json [(1, ''a.tar.gz''), (2, ''b.zip'')]) [] =
       Inr [(1, ''a.tar.gz''), (2, ''b.zip'')]
   \<and> select_assets (Some [''b.zip'', ''missing.bin'']) (map to_json [(1, ''a.tar.gz''), (2, ''b.zip'')]) [] =
       Inr [(2, ''b.zip'')]"
proof -
  have d: "distinct (map fst [(1::int, ''a.tar.gz''), (2, ''b.zip'')])" by simp
  from select_assets_distinct_ids [OF d, of "[''b.zip'', ''missing.bin'']"] d
  show ?thesis by simp
qed

text \<open>
  The selection is a dictionary keyed by the id. Two assets that share an id take one place
  in it, the place of the first with the name of the second, so the selection is not the
  list of the assets present.
\<close>

theorem select_assets_shared_id_counterexample:
  "select_assets None (map to_json [(1, ''a.tar.gz''), (1, ''b.zip'')]) [] = Inr [(1, ''b.zip'')]
   \<and> select_assets None (map to_json [(1, ''a.tar.gz''), (1, ''b.zip'')]) [] \<noteq>
       Inr [(1, ''a.tar.gz''), (1, ''b.zip'')]
   \<and> select_assets (Some [''a.tar.gz'', ''b.zip''])
         (map to_json [(1, ''a.tar.gz''), (1, ''b.zip'')]) [] = Inr [(1, ''b.zip'')]
   \<and> select_assets (Some [''a.tar.gz'', ''b.zip''])
         (map to_json [(1, ''a.tar.gz''), (1, ''b.zip'')]) [] \<noteq>
       Inr [(1, ''a.tar.gz''), (1, ''b.zip'')]"
  by (simp add: to_json_def)

subsection \<open>The download loop\<close>

lemma write_chunks_concat:
  "write_chunks path cs (fs(path \<mapsto> x)) = fs(path \<mapsto> x @ concat cs)"
  by (induction cs arbitrary: x) auto

lemma download_asset_ok:
  assumes "download_ok e m item"
  shows "download_asset e m res item w =
           (Inr (parent_dir_of e m),
            w\<lparr>files := saved e m [item] (files w),
              requests_sent := requests_sent w @ [asset_request m (fst item)]\<rparr>)"
  using assms
  by (auto simp: download_ok_def download_asset_def Let_def write_chunks_concat
           split: reply.splits)

lemma download_assets_prefix:
  assumes "list_all (download_ok e m) pre"
  shows "download_assets e m res (pre @ rest) pd w =
           download_assets e m res rest (if pre = [] then pd else Some (parent_dir_of e m))
             (w\<lparr>files := saved e m pre (files w),
                requests_sent := requests_sent w @ map (\<lambda>item. asset_request m (fst item)) pre\<rparr>)"
  using assms
proof (induction pre arbitrary: pd w)
  case Nil
  then show ?case by simp
next
  case (Cons item pre)
  then have ok: "download_ok e m item" and rest: "list_all (download_ok e m) pre" by auto
  show ?case
    by (simp add: download_asset_ok [OF ok] Cons.IH [OF rest])
qed

lemma run_module_selected:
  assumes "\<not> check_mode m"
    and "net e (release_request m) = Returns r"
    and "status_code r \<noteq> 401" and "status_code r \<noteq> 404"
    and "body r = Json (Some assets)"
    and "select_assets (asset_names m) assets [] = Inr items"
    and "items \<noteq> []"
  shows "run_module e m w =
           (case download_assets e m \<lparr>changed = False, msg = []\<rparr> items None
                   (w\<lparr>requests_sent := requests_sent w @ [release_request m]\<rparr>) of
              (Inl out, w') \<Rightarrow> (out, w')
            | (Inr None, w') \<Rightarrow> (Uncaught UnboundLocalError, w')
            | (Inr (Some parent_dir), w') \<Rightarrow>
                (Exit \<lparr>changed = False, msg = ''Completed to download assets on '' @ parent_dir\<rparr>,
                 w'))"
  using assms
  by (simp add: run_module_def get_assets_def Let_def split: prod.splits sum.splits option.splits)

subsection \<open>The requests sent\<close>

text \<open>An id is printed in decimal, with a minus sign when it is negative.\<close>

lemma position_of_nth:
  assumes "distinct xs" and "n < length xs"
  shows "length (takeWhile (\<lambda>d. d \<noteq> xs ! n) xs) = n"
proof -
  have "takeWhile (\<lambda>d. d \<noteq> xs ! n) xs = take n xs"
  proof (rule takeWhile_eq_take_P_nth)
    fix i
    assume "i < n" and "i < length xs"
    with assms show "xs ! i \<noteq> xs ! n"
      by (simp add: nth_eq_iff_index_eq)
  next
    show "\<not> xs ! n \<noteq> xs ! n" by simp
  qed
  with assms(2) show ?thesis by simp
qed

lemma digit_value_nth:
  assumes "n < 10"
  shows "digit_value (''0123456789'' ! n) = n"
proof -
  have "length ''0123456789'' = 10" by simp
  with assms have "n < length ''0123456789''" by (simp only:)
  moreover have "distinct ''0123456789''" by simp
  ultimately show ?thesis
    unfolding digit_value_def by (intro position_of_nth)
qed

lemma str_nat_decimal: "decimal (str_nat n) = n"
proof (induction n rule: str_nat.induct)
  case (1 n)
  show ?case
  proof (cases "n < 10")
    case True
    then show ?thesis
      by (simp add: str_nat.simps [of n] decimal_def digit_value_nth)
  next
    case False
    with 1 have "decimal (str_nat (n div 10)) = n div 10" by simp
    with False show ?thesis
      by (simp add: str_nat.simps [of n] decimal_def digit_value_nth)
  qed
qed

lemma str_int_decimal: "0 \<le> i \<Longrightarrow> int (decimal (str_int i)) = i"
  by (simp add: str_int_def str_nat_decimal)

lemma str_int_negative: "i < 0 \<Longrightarrow> str_int i = CHR ''-'' # str_int (- i)"
  by (simp add: str_int_def)

lemma download_asset_log:
  "requests_sent (snd (download_asset e m res item w)) =
     requests_sent w @ [asset_request m (fst item)]"
  by (simp add: download_asset_def Let_def split: reply.splits)

lemma download_asset_not_ok:
  assumes "\<not> download_ok e m item"
  shows "\<exists>out. fst (download_asset e m res item w) = Inl out"
  using assms
  by (auto simp: download_ok_def download_asset_def Let_def split: reply.splits)

text \<open>
  The loop sends the request of every item up to the first that does not download, that
  one included.
\<close>

lemma download_assets_log:
  "requests_sent (snd (download_assets e m res items pd w)) =
     requests_sent w @
     map (\<lambda>item. asset_request m (fst item))
       (take (Suc (length (takeWhile (download_ok e m) items))) items)"
proof (induction items arbitrary: pd w)
  case Nil
  show ?case by simp
next
  case (Cons item items)
  show ?case
  proof (cases "download_ok e m item")
    case True
    show ?thesis
      by (simp add: download_asset_ok [OF True] Cons.IH True)
  next
    case False
    from download_asset_not_ok [OF False, of res w] obtain out
      where "fst (download_asset e m res item w) = Inl out" by blast
    then obtain v where a: "download_asset e m res item w = (Inl out, v)"
      by (cases "download_asset e m res item w") simp
    from download_asset_log [of e m res item w] a
    have "requests_sent v = requests_sent w @ [asset_request m (fst item)]" by simp
    with a False show ?thesis by simp
  qed
qed

lemma run_module_log:
  assumes "\<not> check_mode m"
  shows "requests_sent (snd (run_module e m w)) =
           requests_sent w @ release_request m #
           map (\<lambda>item. asset_request m (fst item))
             (take (Suc (length (takeWhile (download_ok e m) (selection e m)))) (selection e m))"
proof -
  let ?w1 = "w\<lparr>requests_sent := requests_sent w @ [release_request m]\<rparr>"
  let ?res = "\<lparr>changed = False, msg = []\<rparr>"
  have short: ?thesis
    if "requests_sent (snd (run_module e m w)) = requests_sent ?w1" and "selection e m = []"
    using that by simp
  show ?thesis
  proof (cases "net e (release_request m)")
    case (Raises x)
    with assms show ?thesis
      by (intro short) (simp_all add: run_module_def Let_def selection_def)
  next
    case (Returns r)
    show ?thesis
    proof (cases "status_code r = 401 \<or> status_code r = 404")
      case True
      with Returns assms show ?thesis
        by (intro short) (auto simp: run_module_def Let_def selection_def)
    next
      case False
      with Returns assms have run: "run_module e m w = get_assets e m ?res r ?w1"
        by (simp add: run_module_def Let_def)
      show ?thesis
      proof (cases "body r")
        case NotJson
        with Returns False show ?thesis
          by (intro short) (simp_all add: run get_assets_def selection_def)
      next
        case (Json doc)
        show ?thesis
        proof (cases doc)
          case None
          with Json Returns False show ?thesis
            by (intro short) (simp_all add: run get_assets_def selection_def)
        next
          case (Some assets)
          show ?thesis
          proof (cases "select_assets (asset_names m) assets []")
            case (Inl x)
            with Json Some Returns False show ?thesis
              by (intro short) (simp_all add: run get_assets_def selection_def)
          next
            case (Inr items)
            with Json Some Returns False have sel: "selection e m = items"
              by (simp add: selection_def)
            show ?thesis
            proof (cases "items = []")
              case True
              with Json Some Inr sel show ?thesis
                by (intro short) (simp_all add: run get_assets_def)
            next
              case nonempty: False
              from nonempty Json Some Inr
              have "requests_sent (snd (run_module e m w)) =
                    requests_sent (snd (download_assets e m ?res items None ?w1))"
                by (simp add: run get_assets_def split: prod.splits sum.splits option.splits)
              with download_assets_log [of e m ?res items None ?w1] sel
              show ?thesis by simp
            qed
          qed
        qed
      qed
    qed
  qed
qed

text \<open>
  C6. The first request of a run goes to
  \<^verbatim>\<open>{url}/api/v3/repos/{owner}/{repo}/releases/latest\<close> when no tag is given and to
  \<^verbatim>\<open>{url}/api/v3/repos/{owner}/{repo}/releases/tags/{tag}\<close> otherwise. The requests that
  follow go to \<^verbatim>\<open>{url}/api/v3/repos/{owner}/{repo}/releases/assets/{id}\<close>, one for every
  selected item in the order of the selection, up to and including the first item that
  does not download: for all of them when all download. These are all the requests of
  the run.
\<close>

theorem request_urls:
  assumes "\<not> check_mode m"
  shows "map req_url (requests_sent (snd (run_module e m w))) =
           map req_url (requests_sent w) @
           (case tag m of
              None \<Rightarrow> url m @ ''/api/v3/repos/'' @ owner m @ ''/'' @ repo m @ ''/releases/latest''
            | Some t \<Rightarrow>
                url m @ ''/api/v3/repos/'' @ owner m @ ''/'' @ repo m @ ''/releases/tags/'' @ t) #
           map (\<lambda>item. url m @ ''/api/v3/repos/'' @ owner m @ ''/'' @ repo m @
                       ''/releases/assets/'' @ str_int (fst item))
             (take (Suc (length (takeWhile (download_ok e m) (selection e m)))) (selection e m))"
  by (simp add: run_module_log [OF assms] release_request_def asset_request_def release_url_def
        asset_url_def github_endpoint_url_def comp_def split: option.splits)

theorem request_urls_witness:
  "map req_url (requests_sent (snd (run_module tagged_env
      (sample_module\<lparr>tag := Some ''v1.0''\<rparr>) sample_world))) =
     [''https://github.example.com/api/v3/repos/eub/something-magnificent/releases/tags/v1.0'',
      ''https://github.example.com/api/v3/repos/eub/something-magnificent/releases/assets/1024'',
      ''https://github.example.com/api/v3/repos/eub/something-magnificent/releases/assets/7'']
   \<and> map req_url (requests_sent (snd (run_module
      (sample_env (sample_release 200) (sample_asset 200) (sample_asset 200))
      sample_module sample_world))) =
     [''https://github.example.com/api/v3/repos/eub/something-magnificent/releases/latest'',
      ''https://github.example.com/api/v3/repos/eub/something-magnificent/releases/assets/1'',
      ''https://github.example.com/api/v3/repos/eub/something-magnificent/releases/assets/2'']"
proof -
  let ?m = "sample_module\<lparr>tag := Some ''v1.0''\<rparr>"
  let ?e = "sample_env (sample_release 200) (sample_asset 200) (sample_asset 200)"
  have h: "\<not> check_mode ?m" and h': "\<not> check_mode sample_module"
    by (simp_all add: sample_module_def)
  have sel: "selection tagged_env ?m = [(1024, ''a.tar.gz''), (7, ''b.zip'')]"
    by (simp add: selection_def tagged_env_def sample_defs)
  have ok: "download_ok tagged_env ?m (1024, ''a.tar.gz'')" "download_ok tagged_env ?m (7, ''b.zip'')"
    by (simp_all add: download_ok_def tagged_env_def sample_defs)
  have sel': "selection ?e sample_module = [(1, ''a.tar.gz''), (2, ''b.zip'')]"
    by (simp add: selection_def sample_defs)
  have ok': "download_ok ?e sample_module (1, ''a.tar.gz'')" "download_ok ?e sample_module (2, ''b.zip'')"
    by (simp_all add: download_ok_def sample_defs)
  from request_urls [OF h, of tagged_env sample_world]
  have a: "map req_url (requests_sent (snd (run_module tagged_env ?m sample_world))) =
     [''https://github.example.com/api/v3/repos/eub/something-magnificent/releases/tags/v1.0'',
      ''https://github.example.com/api/v3/repos/eub/something-magnificent/releases/assets/1024'',
      ''https://github.example.com/api/v3/repos/eub/something-magnificent/releases/assets/7'']"
    unfolding sel
    by (simp add: ok) (simp add: sample_module_def sample_world_def str_int_def str_nat.simps)
  from request_urls [OF h', of ?e sample_world]
  have b: "map req_url (requests_sent (snd (run_module ?e sample_module sample_world))) =
     [''https://github.example.com/api/v3/repos/eub/something-magnificent/releases/latest'',
      ''https://github.example.com/api/v3/repos/eub/something-magnificent/releases/assets/1'',
      ''https://github.example.com/api/v3/repos/eub/something-magnificent/releases/assets/2'']"
    unfolding sel'
    by (simp add: ok') (simp add: sample_module_def sample_world_def str_int_def str_nat.simps)
  from a b show ?thesis by (rule conjI)
qed

subsection \<open>Failures of the request for the release\<close>

text \<open>
  C3. A connection failure of the request for the release gives the message
  \<^verbatim>\<open>Failed to connect\<close> followed by the URL of that request, status 401 gives
  \<^verbatim>\<open>401 Unauthorized\<close> and status 404 gives \<^verbatim>\<open>404 Not Found\<close>. In each case the request
  was sent once, no other request was sent and no file was touched.
\<close>

theorem release_request_failures:
  assumes "\<not> check_mode m"
  shows "(net e (release_request m) = Raises ConnectionError \<longrightarrow>
            run_module e m w =
              (Fail \<lparr>changed = False,
                     msg = ''Failed to connect '' @ req_url (release_request m)\<rparr>,
               w\<lparr>requests_sent := requests_sent w @ [release_request m]\<rparr>))
       \<and> (\<forall>r. net e (release_request m) = Returns r \<and> status_code r = 401 \<longrightarrow>
            run_module e m w =
              (Fail \<lparr>changed = False, msg = ''401 Unauthorized''\<rparr>,
               w\<lparr>requests_sent := requests_sent w @ [release_request m]\<rparr>))
       \<and> (\<forall>r. net e (release_request m) = Returns r \<and> status_code r = 404 \<longrightarrow>
            run_module e m w =
              (Fail \<lparr>changed = False, msg = ''404 Not Found''\<rparr>,
               w\<lparr>requests_sent := requests_sent w @ [release_request m]\<rparr>))"
  using assms by (simp add: run_module_def Let_def release_request_def)

theorem release_request_failures_witness:
  "run_module (sample_env (Raises ConnectionError) (sample_asset 200) (sample_asset 200))
     sample_module sample_world =
   (Fail \<lparr>changed = False,
          msg = ''Failed to connect https://github.example.com/api/v3/repos/eub/something-magnificent/releases/latest''\<rparr>,
    \<lparr>files = Map.empty, requests_sent = [release_request sample_module]\<rparr>)
   \<and> run_module (sample_env (sample_release 401) (sample_asset 200) (sample_asset 200))
     sample_module sample_world =
   (Fail \<lparr>changed = False, msg = ''401 Unauthorized''\<rparr>,
    \<lparr>files = Map.empty, requests_sent = [release_request sample_module]\<rparr>)
   \<and> run_module (sample_env (sample_release 404) (sample_asset 200) (sample_asset 200))
     sample_module sample_world =
   (Fail \<lparr>changed = False, msg = ''404 Not Found''\<rparr>,
    \<lparr>files = Map.empty, requests_sent = [release_request sample_module]\<rparr>)"
proof -
  let ?e0 = "sample_env (Raises ConnectionError) (sample_asset 200) (sample_asset 200)"
  let ?e1 = "sample_env (sample_release 401) (sample_asset 200) (sample_asset 200)"
  let ?e4 = "sample_env (sample_release 404) (sample_asset 200) (sample_asset 200)"
  let ?assets = "[to_json (1, ''a.tar.gz''), to_json (2, ''b.zip'')]"
  let ?r1 = "\<lparr>status_code = 401, body = Json (Some ?assets), chunks = [], stream_broken = False\<rparr>"
  let ?r4 = "\<lparr>status_code = 404, body = Json (Some ?assets), chunks = [], stream_broken = False\<rparr>"
  have h: "\<not> check_mode sample_module" by (simp add: sample_module_def)
  have u: "req_url (release_request sample_module) =
      ''https://github.example.com/api/v3/repos/eub/something-magnificent/releases/latest''"
    by (simp add: sample_defs)
  have c0: "net ?e0 (release_request sample_module) = Raises ConnectionError"
    by (simp add: sample_defs)
  have c1: "net ?e1 (release_request sample_module) = Returns ?r1 \<and> status_code ?r1 = 401"
    by (simp add: sample_defs)
  have c4: "net ?e4 (release_request sample_module) = Returns ?r4 \<and> status_code ?r4 = 404"
    by (simp add: sample_defs)
  from release_request_failures [OF h, of ?e0 sample_world] c0 u
  have a: "run_module ?e0 sample_module sample_world =
     (Fail \<lparr>changed = False,
          msg = ''Failed to connect https://github.example.com/api/v3/repos/eub/something-magnificent/releases/latest''\<rparr>,
      \<lparr>files = Map.empty, requests_sent = [release_request sample_module]\<rparr>)"
    by (simp add: sample_world_def)
  from release_request_failures [OF h, of ?e1 sample_world] c1
  have b: "run_module ?e1 sample_module sample_world =
     (Fail \<lparr>changed = False, msg = ''401 Unauthorized''\<rparr>,
      \<lparr>files = Map.empty, requests_sent = [release_request sample_module]\<rparr>)"
    by (simp add: sample_world_def)
  from release_request_failures [OF h, of ?e4 sample_world] c4
  have c: "run_module ?e4 sample_module sample_world =
     (Fail \<lparr>changed = False, msg = ''404 Not Found''\<rparr>,
      \<lparr>files = Map.empty, requests_sent = [release_request sample_module]\<rparr>)"
    by (simp add: sample_world_def)
  from a b c show ?thesis by blast
qed

subsection \<open>Other statuses of the release response\<close>

lemma release_request_not_asset_request: "release_request m \<noteq> asset_request m' i"
  by (simp add: release_request_def asset_request_def)

lemma download_asset_same_replies:
  assumes "net e' (asset_request m (fst item)) = net e (asset_request m (fst item))"
    and "openable e' = openable e" and "cwd e' = cwd e"
  shows "download_asset e' m res item w = download_asset e m res item w"
proof -
  have "parent_dir_of e' m = parent_dir_of e m"
    by (simp add: parent_dir_of_def assms split: option.splits)
  then show ?thesis
    by (simp add: download_asset_def Let_def assms split: reply.splits)
qed

lemma download_assets_same_replies:
  assumes "\<And>i. net e' (asset_request m i) = net e (asset_request m i)"
    and "openable e' = openable e" and "cwd e' = cwd e"
  shows "download_assets e' m res items pd w = download_assets e m res items pd w"
proof -
  have step: "download_asset e' m res item v = download_asset e m res item v" for item v
    by (rule download_asset_same_replies) (simp_all add: assms)
  show ?thesis
    by (induction items arbitrary: pd w) (simp_all add: step split: prod.splits sum.splits)
qed

lemma download_asset_failure_message:
  "download_asset e m res item w = (Inl (Fail res'), w') \<Longrightarrow>
     msg res' = ''Failed to download '' @ snd item"
  by (auto simp: download_asset_def Let_def split: reply.splits if_splits)

lemma download_assets_failure_message:
  "download_assets e m res items pd w = (Inl (Fail res'), w') \<Longrightarrow>
     \<exists>name. msg res' = ''Failed to download '' @ name"
proof (induction items arbitrary: pd w)
  case Nil
  then show ?case by simp
next
  case (Cons item items)
  show ?case
  proof (cases "download_asset e m res item w")
    case (Pair x v)
    show ?thesis
    proof (cases x)
      case (Inl out)
      with Pair Cons.prems have "download_asset e m res item w = (Inl (Fail res'), w')"
        by simp
      from download_asset_failure_message [OF this] show ?thesis by blast
    next
      case (Inr d)
      with Pair Cons.prems have "download_assets e m res items (Some d) v = (Inl (Fail res'), w')"
        by simp
      from Cons.IH [OF this] show ?thesis .
    qed
  qed
qed

lemma get_assets_failure_message:
  assumes "get_assets e m \<lparr>changed = False, msg = []\<rparr> r w = (Fail res', w')"
  shows "msg res' = ''There is no asset to download''
       \<or> (\<exists>name. msg res' = ''Failed to download '' @ name)"
proof (cases "body r")
  case NotJson
  with assms show ?thesis by (simp add: get_assets_def)
next
  case (Json doc)
  show ?thesis
  proof (cases doc)
    case None
    with Json assms show ?thesis by (simp add: get_assets_def)
  next
    case (Some assets)
    show ?thesis
    proof (cases "select_assets (asset_names m) assets []")
      case (Inl x)
      with Json Some assms show ?thesis by (simp add: get_assets_def)
    next
      case (Inr items)
      show ?thesis
      proof (cases "items = []")
        case True
        with Json Some Inr assms have "msg res' = ''There is no asset to download''"
          by (auto simp: get_assets_def)
        then show ?thesis by blast
      next
        case False
        with Json Some Inr assms
        have "\<exists>pd. download_assets e m \<lparr>changed = False, msg = []\<rparr> items pd w = (Inl (Fail res'), w')"
          by (auto simp: get_assets_def split: prod.splits sum.splits option.splits)
        with download_assets_failure_message show ?thesis by blast
      qed
    qed
  qed
qed

text \<open>
  C4. A response to the request for the release whose status is neither 401 nor 404 has
  its body read as JSON, whatever the status: a body that is no JSON raises, a document
  without \<^verbatim>\<open>"assets"\<close> or an asset without a key raises \<^verbatim>\<open>KeyError\<close>, and a document that
  can be read is used: an empty selection fails with its own message, and a selection
  whose items all download ends the run with the message of success. The run is the run
  that the same response with status 200 gives, and it does not end with any of the
  three messages of that stage.
\<close>

theorem other_status_is_parsed:
  assumes "\<not> check_mode m"
    and "net e (release_request m) = Returns r"
    and "status_code r \<noteq> 401" and "status_code r \<noteq> 404"
  shows "(body r = NotJson \<longrightarrow>
            run_module e m w =
              (Uncaught JSONDecodeError, w\<lparr>requests_sent := requests_sent w @ [release_request m]\<rparr>))
       \<and> (body r = Json None \<longrightarrow>
            run_module e m w =
              (Uncaught KeyError, w\<lparr>requests_sent := requests_sent w @ [release_request m]\<rparr>))
       \<and> (\<forall>assets x.
            body r = Json (Some assets) \<and> select_assets (asset_names m) assets [] = Inl x \<longrightarrow>
            run_module e m w =
              (Uncaught x, w\<lparr>requests_sent := requests_sent w @ [release_request m]\<rparr>))
       \<and> (\<forall>assets.
            body r = Json (Some assets) \<and> select_assets (asset_names m) assets [] = Inr [] \<longrightarrow>
            run_module e m w =
              (Fail \<lparr>changed = False, msg = ''There is no asset to download''\<rparr>,
               w\<lparr>requests_sent := requests_sent w @ [release_request m]\<rparr>))
       \<and> (\<forall>assets items.
            body r = Json (Some assets) \<and> select_assets (asset_names m) assets [] = Inr items
            \<and> items \<noteq> [] \<and> list_all (download_ok e m) items \<longrightarrow>
            run_module e m w =
              (Exit \<lparr>changed = False,
                     msg = ''Completed to download assets on '' @
                           (case output_path m of None \<Rightarrow> cwd e | Some d \<Rightarrow> d)\<rparr>,
               w\<lparr>files := saved e m items (files w),
                 requests_sent :=
                   requests_sent w @ release_request m #
                   map (\<lambda>item. asset_request m (fst item)) items\<rparr>))
       \<and> run_module e m w =
           run_module (e\<lparr>net := (net e)(release_request m := Returns (r\<lparr>status_code := 200\<rparr>))\<rparr>) m w
       \<and> fst (run_module e m w) \<notin>
           {Fail \<lparr>changed = False, msg = ''Failed to connect '' @ req_url (release_request m)\<rparr>,
            Fail \<lparr>changed = False, msg = ''401 Unauthorized''\<rparr>,
            Fail \<lparr>changed = False, msg = ''404 Not Found''\<rparr>}"
proof (intro conjI)
  let ?e' = "e\<lparr>net := (net e)(release_request m := Returns (r\<lparr>status_code := 200\<rparr>))\<rparr>"
  let ?w1 = "w\<lparr>requests_sent := requests_sent w @ [release_request m]\<rparr>"
  let ?res = "\<lparr>changed = False, msg = []\<rparr>"
  have run: "run_module e m w = get_assets e m ?res r ?w1"
    using assms by (simp add: run_module_def Let_def)
  show "body r = NotJson \<longrightarrow> run_module e m w = (Uncaught JSONDecodeError, ?w1)"
    by (simp add: run get_assets_def)
  show "body r = Json None \<longrightarrow> run_module e m w = (Uncaught KeyError, ?w1)"
    by (simp add: run get_assets_def)
  show "\<forall>assets x.
          body r = Json (Some assets) \<and> select_assets (asset_names m) assets [] = Inl x \<longrightarrow>
          run_module e m w = (Uncaught x, ?w1)"
    by (simp add: run get_assets_def)
  show "\<forall>assets.
          body r = Json (Some assets) \<and> select_assets (asset_names m) assets [] = Inr [] \<longrightarrow>
          run_module e m w =
            (Fail \<lparr>changed = False, msg = ''There is no asset to download''\<rparr>, ?w1)"
    by (simp add: run get_assets_def)
  show "\<forall>assets items.
          body r = Json (Some assets) \<and> select_assets (asset_names m) assets [] = Inr items
          \<and> items \<noteq> [] \<and> list_all (download_ok e m) items \<longrightarrow>
          run_module e m w =
            (Exit \<lparr>changed = False,
                   msg = ''Completed to download assets on '' @
                         (case output_path m of None \<Rightarrow> cwd e | Some d \<Rightarrow> d)\<rparr>,
             w\<lparr>files := saved e m items (files w),
               requests_sent :=
                 requests_sent w @ release_request m #
                 map (\<lambda>item. asset_request m (fst item)) items\<rparr>)"
  proof (intro allI impI, elim conjE)
    fix assets items
    assume doc: "body r = Json (Some assets)"
      and sel: "select_assets (asset_names m) assets [] = Inr items"
      and nonempty: "items \<noteq> []"
      and ok: "list_all (download_ok e m) items"
    from download_assets_prefix [OF ok, of ?res "[]" None ?w1] nonempty
    have "download_assets e m ?res items None ?w1 =
            (Inr (Some (parent_dir_of e m)),
             w\<lparr>files := saved e m items (files w),
               requests_sent :=
                 requests_sent w @ release_request m #
                 map (\<lambda>item. asset_request m (fst item)) items\<rparr>)"
      by simp
    with doc sel nonempty
    show "run_module e m w =
            (Exit \<lparr>changed = False,
                   msg = ''Completed to download assets on '' @
                         (case output_path m of None \<Rightarrow> cwd e | Some d \<Rightarrow> d)\<rparr>,
             w\<lparr>files := saved e m items (files w),
               requests_sent :=
                 requests_sent w @ release_request m #
                 map (\<lambda>item. asset_request m (fst item)) items\<rparr>)"
      by (simp add: run get_assets_def parent_dir_of_def)
  qed
  have "download_assets ?e' m res items pd v = download_assets e m res items pd v"
    for res items pd v
    by (rule download_assets_same_replies) (simp_all add: release_request_not_asset_request [symmetric])
  then have "get_assets ?e' m ?res (r\<lparr>status_code := 200\<rparr>) ?w1 = get_assets e m ?res r ?w1"
    by (simp add: get_assets_def split: json_body.splits option.splits sum.splits)
  moreover have "run_module ?e' m w = get_assets ?e' m ?res (r\<lparr>status_code := 200\<rparr>) ?w1"
    using assms(1) by (simp add: run_module_def Let_def)
  ultimately show "run_module e m w = run_module ?e' m w"
    by (simp only: run)
  show "fst (run_module e m w) \<notin>
           {Fail \<lparr>changed = False, msg = ''Failed to connect '' @ req_url (release_request m)\<rparr>,
            Fail \<lparr>changed = False, msg = ''401 Unauthorized''\<rparr>,
            Fail \<lparr>changed = False, msg = ''404 Not Found''\<rparr>}"
  proof
    assume bad: "fst (run_module e m w) \<in>
           {Fail \<lparr>changed = False, msg = ''Failed to connect '' @ req_url (release_request m)\<rparr>,
            Fail \<lparr>changed = False, msg = ''401 Unauthorized''\<rparr>,
            Fail \<lparr>changed = False, msg = ''404 Not Found''\<rparr>}"
    then obtain res' w' where g: "get_assets e m ?res r ?w1 = (Fail res', w')"
      and m: "msg res' = ''Failed to connect '' @ req_url (release_request m)
              \<or> msg res' = ''401 Unauthorized'' \<or> msg res' = ''404 Not Found''"
      by (cases "get_assets e m ?res r ?w1") (auto simp: run)
    from get_assets_failure_message [OF g]
    consider "msg res' = ''There is no asset to download''"
      | name where "msg res' = ''Failed to download '' @ name"
      by blast
    then show False
    proof cases
      case 1
      with m show False by simp
    next
      case 2
      with m show False by simp
    qed
  qed
qed

theorem other_status_is_parsed_witness:
  "run_module (sample_env (sample_release 500) (sample_asset 200) (sample_asset 200))
     sample_module sample_world =
   (Exit \<lparr>changed = False, msg = ''Completed to download assets on output''\<rparr>,
    \<lparr>files = [''output/a.tar.gz'' \<mapsto> ''PK34'', ''output/b.zip'' \<mapsto> ''PK34''],
     requests_sent =
       [release_request sample_module, asset_request sample_module 1,
        asset_request sample_module 2]\<rparr>)
   \<and> run_module (sample_env (sample_asset 403) (sample_asset 200) (sample_asset 200))
     sample_module sample_world =
   (Uncaught JSONDecodeError,
    \<lparr>files = Map.empty, requests_sent = [release_request sample_module]\<rparr>)
   \<and> run_module (sample_env (sample_release 500) (sample_asset 200) (sample_asset 200))
     (sample_module\<lparr>asset_names := Some [''missing.bin'']\<rparr>) sample_world =
   (Fail \<lparr>changed = False, msg = ''There is no asset to download''\<rparr>,
    \<lparr>files = Map.empty, requests_sent = [release_request sample_module]\<rparr>)"
proof -
  let ?e = "sample_env (sample_release 500) (sample_asset 200) (sample_asset 200)"
  let ?e3 = "sample_env (sample_asset 403) (sample_asset 200) (sample_asset 200)"
  let ?m' = "sample_module\<lparr>asset_names := Some [''missing.bin'']\<rparr>"
  let ?assets = "[to_json (1, ''a.tar.gz''), to_json (2, ''b.zip'')]"
  let ?r = "\<lparr>status_code = 500, body = Json (Some ?assets), chunks = [], stream_broken = False\<rparr>"
  let ?r3 = "\<lparr>status_code = 403, body = NotJson, chunks = [''PK'', ''34''],
               stream_broken = False\<rparr>"
  have h1: "\<not> check_mode sample_module" and h1': "\<not> check_mode ?m'"
    by (simp_all add: sample_module_def)
  have h2: "net ?e (release_request sample_module) = Returns ?r" by (simp add: sample_defs)
  have h2': "net ?e (release_request ?m') = Returns ?r" by (simp add: sample_defs)
  have h3: "status_code ?r \<noteq> 401" and h4: "status_code ?r \<noteq> 404" by simp_all
  have g2: "net ?e3 (release_request sample_module) = Returns ?r3" by (simp add: sample_defs)
  have g3: "status_code ?r3 \<noteq> 401" and g4: "status_code ?r3 \<noteq> 404" by simp_all
  have doc: "body ?r = Json (Some ?assets)" by simp
  have sel: "select_assets (asset_names sample_module) ?assets [] =
               Inr [(1, ''a.tar.gz''), (2, ''b.zip'')]"
    by (simp add: sample_defs)
  have sel': "select_assets (asset_names ?m') ?assets [] = Inr []"
    by (simp add: sample_defs)
  have ok: "list_all (download_ok ?e sample_module) [(1, ''a.tar.gz''), (2, ''b.zip'')]"
    by (simp add: sample_defs download_ok_def)
  from other_status_is_parsed [OF h1 h2 h3 h4, of sample_world] doc sel ok
  have "run_module ?e sample_module sample_world =
     (Exit \<lparr>changed = False,
            msg = ''Completed to download assets on '' @
                  (case output_path sample_module of None \<Rightarrow> cwd ?e | Some d \<Rightarrow> d)\<rparr>,
      sample_world\<lparr>files := saved ?e sample_module [(1, ''a.tar.gz''), (2, ''b.zip'')]
                        (files sample_world),
        requests_sent :=
          requests_sent sample_world @ release_request sample_module #
          map (\<lambda>item. asset_request sample_module (fst item))
            [(1, ''a.tar.gz''), (2, ''b.zip'')]\<rparr>)"
    by blast
  then have a: "run_module ?e sample_module sample_world =
     (Exit \<lparr>changed = False, msg = ''Completed to download assets on output''\<rparr>,
      \<lparr>files = [''output/a.tar.gz'' \<mapsto> ''PK34'', ''output/b.zip'' \<mapsto> ''PK34''],
       requests_sent =
         [release_request sample_module, asset_request sample_module 1,
          asset_request sample_module 2]\<rparr>)"
    by (simp add: sample_world_def sample_module_def sample_env_def sample_asset_def
          asset_request_def asset_url_def github_endpoint_url_def str_int_def str_nat.simps
          parent_dir_of_def path_join_def)
  from other_status_is_parsed [OF h1 g2 g3 g4, of sample_world]
  have b: "run_module ?e3 sample_module sample_world =
     (Uncaught JSONDecodeError,
      \<lparr>files = Map.empty, requests_sent = [release_request sample_module]\<rparr>)"
    by (simp add: sample_world_def)
  from other_status_is_parsed [OF h1' h2' h3 h4, of sample_world] doc sel'
  have "run_module ?e ?m' sample_world =
     (Fail \<lparr>changed = False, msg = ''There is no asset to download''\<rparr>,
      sample_world\<lparr>requests_sent := requests_sent sample_world @ [release_request ?m']\<rparr>)"
    by blast
  then have c: "run_module ?e ?m' sample_world =
     (Fail \<lparr>changed = False, msg = ''There is no asset to download''\<rparr>,
      \<lparr>files = Map.empty, requests_sent = [release_request sample_module]\<rparr>)"
    by (simp add: sample_world_def sample_module_def release_request_def release_url_def
          github_endpoint_url_def)
  from a b c show ?thesis by blast
qed

subsection \<open>Nothing to download\<close>

text \<open>
  C5. When the selection is empty the run fails with the message
  \<^verbatim>\<open>There is no asset to download\<close>; the request for the release is the only one sent and
  the files are what they were.
\<close>

theorem empty_selection_fails:
  assumes "\<not> check_mode m"
    and "net e (release_request m) = Returns r"
    and "status_code r \<noteq> 401" and "status_code r \<noteq> 404"
    and "body r = Json (Some assets)"
    and "select_assets (asset_names m) assets [] = Inr []"
  shows "run_module e m w =
           (Fail \<lparr>changed = False, msg = ''There is no asset to download''\<rparr>,
            w\<lparr>requests_sent := requests_sent w @ [release_request m]\<rparr>)"
  using assms by (simp add: run_module_def get_assets_def Let_def)

theorem empty_selection_fails_witness:
  "run_module (sample_env (sample_release 200) (sample_asset 200) (sample_asset 200))
     (sample_module\<lparr>asset_names := Some [''missing.bin'']\<rparr>) sample_world =
   (Fail \<lparr>changed = False, msg = ''There is no asset to download''\<rparr>,
    \<lparr>files = Map.empty,
     requests_sent = [release_request sample_module]\<rparr>)"
proof -
  let ?e = "sample_env (sample_release 200) (sample_asset 200) (sample_asset 200)"
  let ?m = "sample_module\<lparr>asset_names := Some [''missing.bin'']\<rparr>"
  let ?assets = "[to_json (1, ''a.tar.gz''), to_json (2, ''b.zip'')]"
  let ?r = "\<lparr>status_code = 200, body = Json (Some ?assets), chunks = [], stream_broken = False\<rparr>"
  have h1: "\<not> check_mode ?m" by (simp add: sample_module_def)
  have h2: "net ?e (release_request ?m) = Returns ?r" by (simp add: sample_defs)
  have h3: "status_code ?r \<noteq> 401" and h4: "status_code ?r \<noteq> 404" by simp_all
  have h5: "body ?r = Json (Some ?assets)" by simp
  have h6: "select_assets (asset_names ?m) ?assets [] = Inr []" by (simp add: sample_defs)
  from empty_selection_fails [OF h1 h2 h3 h4 h5 h6, of sample_world]
  show ?thesis
    by (simp add: sample_world_def sample_module_def release_request_def release_url_def
          github_endpoint_url_def)
qed

subsection \<open>A download that fails\<close>

text \<open>
  C2. When the items before one have been downloaded and the request for that one is
  answered with a status other than 200, the run fails with \<^verbatim>\<open>Failed to download\<close> and the
  name of that item. No request follows the failed one, and the files are those the items
  before it left: nothing is written for the failed item and nothing is undone.
\<close>

theorem failed_download_aborts:
  assumes "\<not> check_mode m"
    and "net e (release_request m) = Returns r"
    and "status_code r \<noteq> 401" and "status_code r \<noteq> 404"
    and "body r = Json (Some assets)"
    and "select_assets (asset_names m) assets [] = Inr (before @ (asset_id, asset_name) # after)"
    and "list_all (download_ok e m) before"
    and "net e (asset_request m asset_id) = Returns r'"
    and "status_code r' \<noteq> 200"
  shows "run_module e m w =
           (Fail \<lparr>changed = False, msg = ''Failed to download '' @ asset_name\<rparr>,
            w\<lparr>files := saved e m before (files w),
              requests_sent :=
                requests_sent w @ release_request m #
                map (\<lambda>item. asset_request m (fst item)) (before @ [(asset_id, asset_name)])\<rparr>)"
proof -
  have "before @ (asset_id, asset_name) # after \<noteq> []" by simp
  note run = run_module_selected [OF assms(1-6) this]
  have stop: "download_asset e m res (asset_id, asset_name) v =
          (Inl (Fail (res\<lparr>msg := ''Failed to download '' @ asset_name\<rparr>)),
           v\<lparr>requests_sent := requests_sent v @ [asset_request m asset_id]\<rparr>)" for res v
    using assms(8,9) by (simp add: download_asset_def Let_def)
  show ?thesis
    by (simp add: run download_assets_prefix [OF assms(7)] stop)
qed

theorem failed_download_aborts_witness:
  "run_module (sample_env (sample_release 200) (sample_asset 200) (sample_asset 500))
     sample_module sample_world =
   (Fail \<lparr>changed = False, msg = ''Failed to download b.zip''\<rparr>,
    \<lparr>files = [''output/a.tar.gz'' \<mapsto> ''PK34''],
     requests_sent =
       [release_request sample_module, asset_request sample_module 1,
        asset_request sample_module 2]\<rparr>)"
proof -
  let ?e = "sample_env (sample_release 200) (sample_asset 200) (sample_asset 500)"
  let ?r = "\<lparr>status_code = 200,
              body = Json (Some [to_json (1, ''a.tar.gz''), to_json (2, ''b.zip'')]),
              chunks = [], stream_broken = False\<rparr>"
  let ?r' = "\<lparr>status_code = 500, body = NotJson, chunks = [''PK'', ''34''],
              stream_broken = False\<rparr>"
  have h1: "\<not> check_mode sample_module" by (simp add: sample_module_def)
  have h2: "net ?e (release_request sample_module) = Returns ?r" by (simp add: sample_defs)
  have h3: "status_code ?r \<noteq> 401" and h4: "status_code ?r \<noteq> 404" by simp_all
  have h5: "body ?r = Json (Some [to_json (1, ''a.tar.gz''), to_json (2, ''b.zip'')])" by simp
  have h8: "net ?e (asset_request sample_module 2) = Returns ?r'" by (simp add: sample_defs)
  have h9: "status_code ?r' \<noteq> 200" by simp
  from failed_download_aborts [OF h1 h2 h3 h4 h5 sample_selection sample_first_ok h8 h9,
      of sample_world]
  show ?thesis
    by (simp add: sample_world_def sample_module_def sample_env_def sample_asset_def
          asset_request_def asset_url_def github_endpoint_url_def str_int_def str_nat.simps
          parent_dir_of_def path_join_def)
qed

text \<open>
  C10. The request for an asset is sent outside any \<^verbatim>\<open>try\<close>: when it raises
  \<^verbatim>\<open>ConnectionError\<close> the exception leaves the module uncaught, and the run ends with none
  of the five messages.
\<close>

theorem connection_error_in_download_uncaught:
  assumes "\<not> check_mode m"
    and "net e (release_request m) = Returns r"
    and "status_code r \<noteq> 401" and "status_code r \<noteq> 404"
    and "body r = Json (Some assets)"
    and "select_assets (asset_names m) assets [] = Inr (before @ (asset_id, asset_name) # after)"
    and "list_all (download_ok e m) before"
    and "net e (asset_request m asset_id) = Raises ConnectionError"
  shows "run_module e m w =
           (Uncaught ConnectionError,
            w\<lparr>files := saved e m before (files w),
              requests_sent :=
                requests_sent w @ release_request m #
                map (\<lambda>item. asset_request m (fst item)) (before @ [(asset_id, asset_name)])\<rparr>)"
proof -
  have "before @ (asset_id, asset_name) # after \<noteq> []" by simp
  note run = run_module_selected [OF assms(1-6) this]
  have stop: "download_asset e m res (asset_id, asset_name) v =
          (Inl (Uncaught ConnectionError),
           v\<lparr>requests_sent := requests_sent v @ [asset_request m asset_id]\<rparr>)" for res v
    using assms(8) by (simp add: download_asset_def Let_def)
  show ?thesis
    by (simp add: run download_assets_prefix [OF assms(7)] stop)
qed

theorem connection_error_in_download_uncaught_witness:
  "run_module (sample_env (sample_release 200) (Raises ConnectionError) (sample_asset 200))
     sample_module sample_world =
   (Uncaught ConnectionError,
    \<lparr>files = Map.empty,
     requests_sent = [release_request sample_module, asset_request sample_module 1]\<rparr>)"
proof -
  let ?e = "sample_env (sample_release 200) (Raises ConnectionError) (sample_asset 200)"
  let ?assets = "[to_json (1, ''a.tar.gz''), to_json (2, ''b.zip'')]"
  let ?r = "\<lparr>status_code = 200, body = Json (Some ?assets), chunks = [], stream_broken = False\<rparr>"
  have h1: "\<not> check_mode sample_module" by (simp add: sample_module_def)
  have h2: "net ?e (release_request sample_module) = Returns ?r" by (simp add: sample_defs)
  have h3: "status_code ?r \<noteq> 401" and h4: "status_code ?r \<noteq> 404" by simp_all
  have h5: "body ?r = Json (Some ?assets)" by simp
  have h6: "select_assets (asset_names sample_module) ?assets [] =
              Inr ([] @ (1, ''a.tar.gz'') # [(2, ''b.zip'')])"
    by (simp add: sample_defs)
  have h7: "list_all (download_ok ?e sample_module) []" by simp
  have h8: "net ?e (asset_request sample_module 1) = Raises ConnectionError"
    by (simp add: sample_defs)
  from connection_error_in_download_uncaught [OF h1 h2 h3 h4 h5 h6 h7 h8, of sample_world]
  show ?thesis by (simp add: sample_world_def)
qed

subsection \<open>All downloads succeed\<close>

text \<open>
  C7. When every selected item downloads successfully the run exits with \<^verbatim>\<open>changed\<close> false
  and the message \<^verbatim>\<open>Completed to download assets on\<close> followed by the destination: the
  parameter \<^verbatim>\<open>output_path\<close> when it is given, the current directory otherwise. The
  file of an item is at \<^verbatim>\<open>os.path.join\<close> of that destination and the name of the item.
\<close>

theorem all_downloaded_exits:
  assumes "\<not> check_mode m"
    and "net e (release_request m) = Returns r"
    and "status_code r \<noteq> 401" and "status_code r \<noteq> 404"
    and "body r = Json (Some assets)"
    and "select_assets (asset_names m) assets [] = Inr items"
    and "items \<noteq> []"
    and "list_all (download_ok e m) items"
  shows "run_module e m w =
           (Exit \<lparr>changed = False,
                  msg = ''Completed to download assets on '' @
                        (case output_path m of None \<Rightarrow> cwd e | Some d \<Rightarrow> d)\<rparr>,
            w\<lparr>files := saved e m items (files w),
              requests_sent :=
                requests_sent w @ release_request m #
                map (\<lambda>item. asset_request m (fst item)) items\<rparr>)"
proof -
  note run = run_module_selected [OF assms(1-7)]
  from download_assets_prefix [OF assms(8), of res "[]" pd v for res pd v] assms(7)
  show ?thesis
    by (simp add: run parent_dir_of_def)
qed

theorem all_downloaded_exits_witness:
  "run_module (sample_env (sample_release 200) (sample_asset 200) (sample_asset 200))
     (sample_module\<lparr>output_path := None, asset_names := Some [''a.tar.gz'']\<rparr>) sample_world =
   (Exit \<lparr>changed = False, msg = ''Completed to download assets on /home/eub''\<rparr>,
    \<lparr>files = [''/home/eub/a.tar.gz'' \<mapsto> ''PK34''],
     requests_sent = [release_request sample_module, asset_request sample_module 1]\<rparr>)"
proof -
  let ?e = "sample_env (sample_release 200) (sample_asset 200) (sample_asset 200)"
  let ?m = "sample_module\<lparr>output_path := None, asset_names := Some [''a.tar.gz'']\<rparr>"
  let ?assets = "[to_json (1, ''a.tar.gz''), to_json (2, ''b.zip'')]"
  let ?r = "\<lparr>status_code = 200, body = Json (Some ?assets), chunks = [], stream_broken = False\<rparr>"
  have h1: "\<not> check_mode ?m" by (simp add: sample_module_def)
  have h2: "net ?e (release_request ?m) = Returns ?r" by (simp add: sample_defs)
  have h3: "status_code ?r \<noteq> 401" and h4: "status_code ?r \<noteq> 404" by simp_all
  have h5: "body ?r = Json (Some ?assets)" by simp
  have h6: "select_assets (asset_names ?m) ?assets [] = Inr [(1, ''a.tar.gz'')]"
    by (simp add: sample_defs)
  have h7: "[(1::int, ''a.tar.gz'')] \<noteq> []" by simp
  have h8: "list_all (download_ok ?e ?m) [(1, ''a.tar.gz'')]"
    by (simp add: sample_defs download_ok_def)
  from all_downloaded_exits [OF h1 h2 h3 h4 h5 h6 h7 h8, of sample_world]
  show ?thesis
    by (simp add: sample_world_def sample_module_def sample_env_def sample_asset_def
          release_request_def release_url_def
          asset_request_def asset_url_def github_endpoint_url_def str_int_def str_nat.simps
          parent_dir_of_def path_join_def)
qed

subsection \<open>The flag changed\<close>

lemma download_asset_changed:
  "download_asset e m res item w = (Inl out, w') \<Longrightarrow> \<not> changed res \<Longrightarrow> \<not> outcome_changed out"
  by (auto simp: download_asset_def Let_def split: reply.splits if_splits)

lemma download_assets_changed:
  "download_assets e m res items pd w = (Inl out, w') \<Longrightarrow> \<not> changed res \<Longrightarrow> \<not> outcome_changed out"
proof (induction items arbitrary: pd w)
  case Nil
  then show ?case by simp
next
  case (Cons item items)
  then show ?case
    by (auto split: prod.splits sum.splits dest: download_asset_changed)
qed

lemma get_assets_changed:
  "\<not> changed res \<Longrightarrow> \<not> outcome_changed (fst (get_assets e m res r w))"
  by (auto simp: get_assets_def split: json_body.splits option.splits sum.splits prod.splits
           dest: download_assets_changed)

lemma run_module_changed: "\<not> outcome_changed (fst (run_module e m w))"
  by (auto simp: run_module_def Let_def get_assets_changed split: reply.splits)

text \<open>
  C8. Whatever the invocation, the record that \<^verbatim>\<open>exit_json\<close> or \<^verbatim>\<open>fail_json\<close> receives has
  \<^verbatim>\<open>changed\<close> false.
\<close>

theorem changed_is_false:
  assumes "fst (run_module e m w) = Exit res \<or> fst (run_module e m w) = Fail res"
  shows "changed res = False"
  using assms run_module_changed [of e m w] by auto

theorem changed_is_false_witness:
  "fst (run_module (sample_env (sample_release 401) (sample_asset 200) (sample_asset 200))
          sample_module sample_world) = Fail \<lparr>changed = False, msg = ''401 Unauthorized''\<rparr>
   \<and> changed \<lparr>changed = False, msg = ''401 Unauthorized''\<rparr> = False"
proof -
  have h: "fst (run_module (sample_env (sample_release 401) (sample_asset 200) (sample_asset 200))
          sample_module sample_world) = Fail \<lparr>changed = False, msg = ''401 Unauthorized''\<rparr>"
    by (simp add: run_module_def Let_def sample_defs)
  from changed_is_false [OF disjI2, OF h] h show ?thesis by simp
qed

subsection \<open>The token\<close>

lemma download_asset_token:
  assumes "net e' (asset_request (m\<lparr>token := t\<rparr>) (fst item)) = net e (asset_request m (fst item))"
    and "openable e' = openable e" and "cwd e' = cwd e"
    and "files w' = files w"
  shows "fst (download_asset e' (m\<lparr>token := t\<rparr>) res item w') = fst (download_asset e m res item w)
       \<and> files (snd (download_asset e' (m\<lparr>token := t\<rparr>) res item w')) =
           files (snd (download_asset e m res item w))"
proof -
  have "parent_dir_of e' (m\<lparr>token := t\<rparr>) = parent_dir_of e m"
    by (simp add: parent_dir_of_def assms split: option.splits)
  then show ?thesis
    by (simp add: download_asset_def Let_def assms split: reply.splits)
qed

lemma download_assets_token:
  assumes "\<And>i. net e' (asset_request (m\<lparr>token := t\<rparr>) i) = net e (asset_request m i)"
    and "openable e' = openable e" and "cwd e' = cwd e"
  shows "files w' = files w \<Longrightarrow>
         fst (download_assets e' (m\<lparr>token := t\<rparr>) res items pd w') =
           fst (download_assets e m res items pd w)
       \<and> files (snd (download_assets e' (m\<lparr>token := t\<rparr>) res items pd w')) =
           files (snd (download_assets e m res items pd w))"
proof (induction items arbitrary: pd w w')
  case Nil
  then show ?case by simp
next
  case (Cons item items)
  from download_asset_token [where item = item and res = res, OF assms(1) assms(2) assms(3) Cons.prems]
  have one: "fst (download_asset e' (m\<lparr>token := t\<rparr>) res item w') = fst (download_asset e m res item w)"
    and fs: "files (snd (download_asset e' (m\<lparr>token := t\<rparr>) res item w')) =
           files (snd (download_asset e m res item w))"
    by simp_all
  obtain x v where a: "download_asset e m res item w = (x, v)"
    by (cases "download_asset e m res item w")
  obtain x' v' where b: "download_asset e' (m\<lparr>token := t\<rparr>) res item w' = (x', v')"
    by (cases "download_asset e' (m\<lparr>token := t\<rparr>) res item w'")
  from one fs a b have xx: "x' = x" and vv: "files v' = files v" by simp_all
  show ?case
  proof (cases x)
    case (Inl out)
    with a b xx vv show ?thesis by simp
  next
    case (Inr d)
    with a b xx Cons.IH [OF vv, of "Some d"] show ?thesis by simp
  qed
qed

text \<open>
  C9. The token reaches the \<^verbatim>\<open>Authorization\<close> header of the requests and nothing else: two
  runs that differ in the token only, and whose requests receive the same replies, end
  with the same outcome, message included, and leave the same files.
\<close>

theorem message_independent_of_token:
  assumes "net e' (release_request (m\<lparr>token := t\<rparr>)) = net e (release_request m)"
    and "\<And>i. net e' (asset_request (m\<lparr>token := t\<rparr>) i) = net e (asset_request m i)"
    and "openable e' = openable e" and "cwd e' = cwd e"
  shows "fst (run_module e' (m\<lparr>token := t\<rparr>) w) = fst (run_module e m w)
       \<and> files (snd (run_module e' (m\<lparr>token := t\<rparr>) w)) = files (snd (run_module e m w))"
proof -
  let ?m' = "m\<lparr>token := t\<rparr>"
  let ?res = "\<lparr>changed = False, msg = []\<rparr>"
  have dl: "files v' = files v \<Longrightarrow>
         fst (download_assets e' ?m' ?res items pd v') = fst (download_assets e m ?res items pd v)
       \<and> files (snd (download_assets e' ?m' ?res items pd v')) =
           files (snd (download_assets e m ?res items pd v))" for items pd v v'
    by (rule download_assets_token [OF assms(2) assms(3) assms(4)])
  have ga: "fst (get_assets e' ?m' ?res r v') = fst (get_assets e m ?res r v)
       \<and> files (snd (get_assets e' ?m' ?res r v')) = files (snd (get_assets e m ?res r v))"
    if "files v' = files v" for r v v'
  proof (cases "body r")
    case NotJson
    with that show ?thesis by (simp add: get_assets_def)
  next
    case (Json doc)
    show ?thesis
    proof (cases doc)
      case None
      with Json that show ?thesis by (simp add: get_assets_def)
    next
      case (Some assets)
      show ?thesis
      proof (cases "select_assets (asset_names m) assets []")
        case (Inl x)
        with Json Some that show ?thesis by (simp add: get_assets_def)
      next
        case (Inr items)
        obtain x v1 where a: "download_assets e m ?res items None v = (x, v1)"
          by (cases "download_assets e m ?res items None v")
        obtain x' v1' where b: "download_assets e' ?m' ?res items None v' = (x', v1')"
          by (cases "download_assets e' ?m' ?res items None v'")
        from dl [OF that, of items None] a b have "x' = x" "files v1' = files v1" by simp_all
        with Json Some Inr that a b show ?thesis
          by (simp add: get_assets_def split: sum.splits option.splits)
      qed
    qed
  qed
  have url: "release_url ?m' = release_url m"
    by (simp add: release_url_def github_endpoint_url_def split: option.splits)
  show ?thesis
  proof (cases "check_mode m")
    case True
    then show ?thesis by (simp add: run_module_def)
  next
    case False
    show ?thesis
    proof (cases "net e (release_request m)")
      case (Raises x)
      with False assms(1) url show ?thesis by (simp add: run_module_def Let_def)
    next
      case (Returns r)
      with False assms(1) url ga [of "w\<lparr>requests_sent := requests_sent w @ [release_request ?m']\<rparr>"
          "w\<lparr>requests_sent := requests_sent w @ [release_request m]\<rparr>" r]
      show ?thesis by (simp add: run_module_def Let_def)
    qed
  qed
qed

theorem message_independent_of_token_witness:
  "fst (run_module (sample_env (sample_release 200) (sample_asset 200) (sample_asset 500))
          (sample_module\<lparr>token := ''another-token''\<rparr>) sample_world) =
   fst (run_module (sample_env (sample_release 200) (sample_asset 200) (sample_asset 500))
          sample_module sample_world)"
proof -
  let ?e = "sample_env (sample_release 200) (sample_asset 200) (sample_asset 500)"
  have h1: "net ?e (release_request (sample_module\<lparr>token := ''another-token''\<rparr>)) =
            net ?e (release_request sample_module)"
    by (simp add: sample_env_def release_request_def release_url_def github_endpoint_url_def
          sample_module_def)
  have h2: "net ?e (asset_request (sample_module\<lparr>token := ''another-token''\<rparr>) i) =
            net ?e (asset_request sample_module i)" for i
    by (simp add: sample_env_def asset_request_def asset_url_def github_endpoint_url_def
          sample_module_def)
  from message_independent_of_token [where e' = ?e and e = ?e and m = sample_module
      and t = "''another-token''" and w = sample_world, OF h1 h2 refl refl]
  show ?thesis by simp
qed

end
